theory Spec2Isabelle
  imports Main
begin

section \<open>Data model\<close>

text \<open>
  Token payloads are values of TypeScript's \<open>any\<close>, produced by parsing JSON. The
  orchestrator only reads fields of them and tests them for truthiness, so a JSON value
  is all that is needed. Numbers are kept as integers: the code never computes with
  them, it only asks whether they are zero.
\<close>

datatype json =
    JNull
  | JBool bool
  | JNum int
  | JStr string
  | JArr "json list"
  | JObj "(string \<times> json) list"

text \<open>JavaScript truthiness of a value that is not \<open>undefined\<close>.\<close>

fun truthy :: "json \<Rightarrow> bool" where
  "truthy JNull = False"
| "truthy (JBool b) = b"
| "truthy (JNum n) = (n \<noteq> 0)"
| "truthy (JStr s) = (s \<noteq> [])"
| "truthy (JArr xs) = True"
| "truthy (JObj kvs) = True"

text \<open>Truthiness of a value that may be \<open>undefined\<close> (\<open>None\<close>).\<close>

definition truthy_opt :: "json option \<Rightarrow> bool" where
  "truthy_opt v = (case v of None \<Rightarrow> False | Some j \<Rightarrow> truthy j)"

text \<open>Truthiness of an optional string, as in \<open>if (!validationResponse.did)\<close>.\<close>

definition truthy_str :: "string option \<Rightarrow> bool" where
  "truthy_str v = (case v of None \<Rightarrow> False | Some s \<Rightarrow> s \<noteq> [])"

text \<open>
  Every way in which \<open>Validator.validate\<close> can fail to deliver a response: the promise
  is rejected with a message, or a property is read from \<open>undefined\<close> or \<open>null\<close>.
\<close>

datatype error =
    Rejected string
  | TypeError

text \<open>
  Property access \<open>v.k\<close> on a value of type \<open>any\<close>: reading from \<open>undefined\<close> or
  \<open>null\<close> throws, reading a missing property gives \<open>undefined\<close>.
\<close>

fun get_field :: "json option \<Rightarrow> string \<Rightarrow> error + json option" where
  "get_field None k = Inl TypeError"
| "get_field (Some JNull) k = Inl TypeError"
| "get_field (Some (JObj kvs)) k = Inr (map_of kvs k)"
| "get_field (Some v) k = Inr None"

text \<open>
  Modelled from the spec: the declaration of the enum \<open>TokenType\<close> is not among the
  sources; its five tags are those of the \<open>switch\<close> in \<open>Validator.validate\<close>. The
  dispatch table is indexed by the tag as a string and the rejection messages print it,
  so each tag is given the name the spec lists it under.
\<close>

datatype TokenType =
    idToken
  | verifiableCredential
  | verifiablePresentation
  | siop
  | selfIssued

fun type_name :: "TokenType \<Rightarrow> string" where
  "type_name idToken = ''idToken''"
| "type_name verifiableCredential = ''verifiableCredential''"
| "type_name verifiablePresentation = ''verifiablePresentation''"
| "type_name siop = ''siop''"
| "type_name selfIssued = ''selfIssued''"

text \<open>
  Modelled from the spec: the class \<open>ClaimToken\<close> is not among the sources. It is a
  type tag, the raw token and the decoded claims map. What the constructor decodes from
  the raw token is a parameter of the model (\<open>decode\<close> below).
\<close>

record ClaimToken =
  type :: TokenType
  rawToken :: string
  decodedToken :: "(string \<times> json) list"

text \<open>
  \<open>IValidationResult\<close>, as \<open>setValidationResult\<close> fills it. Its field \<open>did\<close> is
  \<open>subjectDid\<close> here and its field \<open>selfIssued\<close> is \<open>selfIssuedClaims\<close>, the
  source's names being taken by a field of the response and by a token type. The DID may
  be a string taken from a response or whatever value a credential has as \<open>aud\<close>; the
  entries of the lists are read through \<open>validatedToken?.decodedToken\<close> and so may be
  \<open>undefined\<close>.
\<close>

record IValidationResult =
  subjectDid :: json
  verifiableCredentials :: "(string \<times> json) list option list"
  idTokens :: "(string \<times> json) list option list"
  selfIssuedClaims :: "(string \<times> json) list option"

text \<open>
  \<open>IValidationResponse\<close> and its extensions for DID and id-token validation, with the
  fields the sources read and write: the flag, the status code and the optional fields
  the steps accumulate.
\<close>

record IValidationResponse =
  result :: bool
  status :: int
  detailedError :: "string option"
  did :: "string option"
  payloadObject :: "json option"
  didSignature :: "json option"
  validationResult :: "IValidationResult option"

text \<open>The literal \<open>{ result: true, status: 200 }\<close> every validation starts from.\<close>

definition initial_response :: IValidationResponse where
  "initial_response =
    \<lparr>result = True, status = 200, detailedError = None, did = None,
     payloadObject = None, didSignature = None, validationResult = None\<rparr>"

section \<open>The validation pipelines\<close>

text \<open>
  The delegates of \<open>IValidationOptions\<close> that the classifier and the two pipelines
  call. The expected audience and the expected values are opaque to the pipelines.
\<close>

record ('a, 'e) IValidationOptions =
  getSelfIssuedTokenObjectDelegate :: "IValidationResponse \<Rightarrow> string \<Rightarrow> IValidationResponse"
  getTokenObjectDelegate :: "IValidationResponse \<Rightarrow> string \<Rightarrow> IValidationResponse"
  resolveDidAndGetKeysDelegate :: "IValidationResponse \<Rightarrow> IValidationResponse"
  validateDidSignatureDelegate :: "IValidationResponse \<Rightarrow> json option \<Rightarrow> IValidationResponse"
  checkTimeValidityOnTokenDelegate :: "IValidationResponse \<Rightarrow> IValidationResponse"
  checkScopeValidityOnTokenDelegate :: "IValidationResponse \<Rightarrow> 'e \<Rightarrow> IValidationResponse"
  checkScopeValidityOnIdTokenDelegate :: "IValidationResponse \<Rightarrow> 'a \<Rightarrow> IValidationResponse"

text \<open>The steps a pipeline can invoke; a run logs each invocation with what it returned.\<close>

datatype step =
    GetTokenObject
  | DownloadConfigurationAndValidate
  | ResolveDidAndGetKeys
  | ValidateDidSignature
  | CheckTimeValidityOnToken
  | CheckScopeValidityOnToken
  | CheckScopeValidityOnIdToken

type_synonym step_log = "(step \<times> IValidationResponse) list"

text \<open>
  \<open>BaseIdTokenValidation.validate\<close>. The abstract method
  \<open>downloadConfigurationAndValidate\<close> is the parameter \<open>download\<close>.
\<close>

definition BaseIdTokenValidation_validate ::
  "('a, 'e) IValidationOptions \<Rightarrow> 'a \<Rightarrow>
   (IValidationResponse \<Rightarrow> ClaimToken \<Rightarrow> IValidationResponse) \<Rightarrow>
   ClaimToken \<Rightarrow> IValidationResponse \<times> step_log" where
  "BaseIdTokenValidation_validate options expectedAudience download idTok =
    (let r0 = initial_response\<lparr>detailedError := Some []\<rparr>;
         r1 = getTokenObjectDelegate options r0 (rawToken idTok);
         l1 = [(GetTokenObject, r1)]
     in if \<not> result r1 then (r1, l1)
     else
       let r2 = download r1 idTok;
           l2 = l1 @ [(DownloadConfigurationAndValidate, r2)]
       in if \<not> result r2 then (r2, l2)
       else
         let r3 = checkTimeValidityOnTokenDelegate options r2;
             l3 = l2 @ [(CheckTimeValidityOnToken, r3)]
         in if \<not> result r3 then (r3, l3)
         else
           let r4 = checkScopeValidityOnIdTokenDelegate options r3 expectedAudience;
               l4 = l3 @ [(CheckScopeValidityOnIdToken, r4)]
           in if \<not> result r4 then (r4, l4)
           else (r4, l4))"

text \<open>The failure \<open>DidValidation.validate\<close> builds when the response carries no DID.\<close>

definition missing_did_response :: IValidationResponse where
  "missing_did_response =
    \<lparr>result = False, status = 403,
     detailedError = Some ''The input token does not contain the DID'',
     did = None, payloadObject = None, didSignature = None, validationResult = None\<rparr>"

text \<open>\<open>DidValidation.validate\<close>.\<close>

definition DidValidation_validate ::
  "('a, 'e) IValidationOptions \<Rightarrow> 'e \<Rightarrow> string \<Rightarrow> IValidationResponse \<times> step_log" where
  "DidValidation_validate options expected token =
    (let r0 = initial_response;
         r1 = getTokenObjectDelegate options r0 token;
         l1 = [(GetTokenObject, r1)]
     in if \<not> result r1 then (r1, l1)
     else if \<not> truthy_str (did r1) then (missing_did_response, l1)
     else
       let r2 = resolveDidAndGetKeysDelegate options r1;
           l2 = l1 @ [(ResolveDidAndGetKeys, r2)]
       in if \<not> result r2 then (r2, l2)
       else
         let r3 = validateDidSignatureDelegate options r2 (didSignature r2);
             l3 = l2 @ [(ValidateDidSignature, r3)]
         in if \<not> result r3 then (r3, l3)
         else
           let r4 = checkTimeValidityOnTokenDelegate options r3;
               l4 = l3 @ [(CheckTimeValidityOnToken, r4)]
           in if \<not> result r4 then (r4, l4)
           else
             let r5 = checkScopeValidityOnTokenDelegate options r4 expected;
                 l5 = l4 @ [(CheckScopeValidityOnToken, r5)]
             in if \<not> result r5 then (r5, l5)
             else (r5, l5))"

section \<open>The validation queue\<close>

text \<open>
  Modelled from the spec: the classes \<open>ValidationQueue\<close> and \<open>ValidationQueueItem\<close> are
  not among the sources. An item holds the raw token, the classified token (nil until
  \<open>setResult\<close>) and the response recorded for it; an item is processed once \<open>setResult\<close>
  has recorded its response. The queue is the ordered, append-only list of its items.
\<close>

record ValidationQueueItem =
  tokenToValidate :: string
  validatedToken :: "ClaimToken option"
  validationResponse :: "IValidationResponse option"

type_synonym ValidationQueue = "ValidationQueueItem list"

text \<open>Modelled from the spec: a new item is pending, with no token and no response yet.\<close>

definition new_item :: "string \<Rightarrow> ValidationQueueItem" where
  "new_item token =
    \<lparr>tokenToValidate = token, validatedToken = None, validationResponse = None\<rparr>"

text \<open>Modelled from the spec: \<open>addToken\<close> appends a new pending item.\<close>

definition addToken :: "ValidationQueue \<Rightarrow> string \<Rightarrow> ValidationQueue" where
  "addToken q token = q @ [new_item token]"

text \<open>
  Modelled from the spec: \<open>getNextToken\<close> returns the next item not yet processed, or
  none when the queue is exhausted. The item is returned as its position in the queue,
  which stands for the reference the source holds.
\<close>

fun next_from :: "nat \<Rightarrow> ValidationQueue \<Rightarrow> nat option" where
  "next_from k [] = None"
| "next_from k (x # xs) =
    (if validationResponse x = None then Some k else next_from (Suc k) xs)"

definition getNextToken :: "ValidationQueue \<Rightarrow> nat option" where
  "getNextToken q = next_from 0 q"

text \<open>
  Modelled from the spec: \<open>setResult\<close> records the response and the classified token on
  the item.
\<close>

definition setResult ::
  "ValidationQueue \<Rightarrow> nat \<Rightarrow> IValidationResponse \<Rightarrow> ClaimToken \<Rightarrow> ValidationQueue" where
  "setResult q i response claimToken =
    q[i := (q ! i)\<lparr>validatedToken := Some claimToken, validationResponse := Some response\<rparr>]"

text \<open>
  Modelled from the spec: \<open>getResult\<close> returns the response of the last-processed item
  (\<open>undefined\<close> when no item has been processed).
\<close>

definition getResult :: "ValidationQueue \<Rightarrow> IValidationResponse option" where
  "getResult q =
    (case rev (filter (\<lambda>item. validationResponse item \<noteq> None) q) of
       [] \<Rightarrow> None
     | item # _ \<Rightarrow> validationResponse item)"

section \<open>The classifier\<close>

text \<open>
  Modelled from the spec: the constructor of \<open>ClaimToken\<close>, called as
  \<open>new ClaimToken(type, token, '')\<close>; \<open>decode\<close> is what it decodes from the raw token.
\<close>

definition ClaimToken_new ::
  "(string \<Rightarrow> (string \<times> json) list) \<Rightarrow> TokenType \<Rightarrow> string \<Rightarrow> ClaimToken" where
  "ClaimToken_new decode ty token = \<lparr>type = ty, rawToken = token, decodedToken = decode token\<rparr>"

text \<open>
  \<open>Validator.getTokenType\<close>. The second component is \<open>None\<close> for the empty object the
  source returns as \<open>{} as ClaimToken\<close>, every field of which reads \<open>undefined\<close>.
\<close>

definition getTokenType ::
  "('a, 'e) IValidationOptions \<Rightarrow> (string \<Rightarrow> (string \<times> json) list) \<Rightarrow> string \<Rightarrow>
   error + (IValidationResponse \<times> ClaimToken option)" where
  "getTokenType validationOptions decode token =
    (let r0 = initial_response;
         r1 = getSelfIssuedTokenObjectDelegate validationOptions r0 token
     in if \<not> result r1 then Inr (r1, None)
     else
      (case get_field (payloadObject r1) ''vc'' of
         Inl e \<Rightarrow> Inl e
       | Inr vc \<Rightarrow>
        (if truthy_opt vc
         then Inr (r1, Some (ClaimToken_new decode verifiableCredential token))
         else
          (case get_field (payloadObject r1) ''vp'' of
             Inl e \<Rightarrow> Inl e
           | Inr vp \<Rightarrow>
            (if truthy_opt vp
             then Inr (r1, Some (ClaimToken_new decode verifiablePresentation token))
             else
              (case get_field (payloadObject r1) ''claims'' of
                 Inl e \<Rightarrow> Inl e
               | Inr claims \<Rightarrow>
                (if truthy_opt claims
                 then Inr (r1, Some (ClaimToken_new decode siop token))
                 else
                  (let r2 = getTokenObjectDelegate validationOptions r1 token
                   in if \<not> result r2 \<and> status r2 = 403
                      then Inr (r2, Some (ClaimToken_new decode selfIssued token))
                      else Inr (r2, Some (ClaimToken_new decode idToken token))))))))))"

section \<open>The orchestrator\<close>

text \<open>
  \<open>ITokenValidator.validate(queue, queueItem, siopDid)\<close>: the validators are injected
  through the constructor. A validator sees the queue and the item, returns a response
  and may have enqueued nested tokens through \<open>addToken\<close> (the second component, in order);
  its promise may also be rejected.
\<close>

type_synonym ITokenValidator =
  "ValidationQueue \<Rightarrow> ValidationQueueItem \<Rightarrow> string option \<Rightarrow>
   error + (IValidationResponse \<times> string list)"

text \<open>The fields of \<open>Validator\<close>: the dispatch table, indexed by type name, and the resolver.\<close>

record 'r Validator =
  tokenValidators :: "string \<rightharpoonup> ITokenValidator"
  resolver :: 'r

text \<open>
  \<open>IValidatorOptions\<close>, as \<open>setValidatorOptions\<close> builds it: the resolver of the
  \<open>Validator\<close>, and an http client and a crypto bundle (key store, crypto factory,
  protocol) that are constructed anew at each call and hold nothing of the \<open>Validator\<close>.
\<close>

record 'r IValidatorOptions =
  vo_resolver :: 'r

definition setValidatorOptions :: "'r Validator \<Rightarrow> 'r IValidatorOptions" where
  "setValidatorOptions this = \<lparr>vo_resolver = resolver this\<rparr>"

text \<open>
  The code of the repository that the orchestrator calls and that is not among the
  sources is a parameter: the constructor \<open>new ValidationOptions(validatorOption, type)\<close>,
  which yields the delegates, and the decoding done by the constructor of \<open>ClaimToken\<close>.
\<close>

record ('r, 'a, 'e) Collaborators =
  ValidationOptions_new :: "'r IValidatorOptions \<Rightarrow> TokenType \<Rightarrow> ('a, 'e) IValidationOptions"
  decode :: "string \<Rightarrow> (string \<times> json) list"

text \<open>
  One invocation of a validator by the orchestrator: the type and raw token of the item,
  the \<open>siopDid\<close> argument it was given (\<open>None\<close> for \<open>undefined\<close>, also when the argument
  is not passed), and the response (\<open>None\<close> when the validator's promise was rejected).
\<close>

record Invocation =
  inv_type :: TokenType
  inv_token :: string
  inv_siopDid :: "string option"
  inv_response :: "IValidationResponse option"

text \<open>
  The variables of \<open>Validator.validate\<close> that live across iterations of its loop, and
  the log of the validator invocations made so far.
\<close>

record ('a, 'e) LoopState =
  options :: "('a, 'e) IValidationOptions"
  siopDid :: "string option"
  queue :: ValidationQueue
  calls :: "Invocation list"

text \<open>The type as the key of the dispatch table and in messages: \<open>undefined\<close> prints as such.\<close>

definition type_key :: "ClaimToken option \<Rightarrow> string" where
  "type_key claimToken =
    (case claimToken of None \<Rightarrow> ''undefined'' | Some t \<Rightarrow> type_name (type t))"

text \<open>The two cases of the \<open>switch\<close> that pass \<open>siopDid\<close> to the validator.\<close>

fun passes_siopDid :: "TokenType \<Rightarrow> bool" where
  "passes_siopDid verifiableCredential = True"
| "passes_siopDid verifiablePresentation = True"
| "passes_siopDid _ = False"

text \<open>
  The body of the \<open>do\<close> loop of \<open>Validator.validate\<close> for the item at position \<open>i\<close>:
  either the call is rejected, or the item is processed and the next item (if any) is
  fetched. The position is the one \<open>getNextToken\<close> returned, which lies within the queue.
\<close>

definition loop_body ::
  "'r Validator \<Rightarrow> ('r, 'a, 'e) Collaborators \<Rightarrow> ('a, 'e) LoopState \<Rightarrow> nat \<Rightarrow>
   (error \<times> ('a, 'e) LoopState) + (('a, 'e) LoopState \<times> nat option)" where
  "loop_body this deps s i =
    (let queueItem = queue s ! i in
     case getTokenType (options s) (decode deps) (tokenToValidate queueItem) of
       Inl e \<Rightarrow> Inl (e, s)
     | Inr (response0, claimToken) \<Rightarrow>
        (case tokenValidators this (type_key claimToken) of
           None \<Rightarrow> Inl (Rejected (type_key claimToken @ '' does not has a TokenValidator''), s)
         | Some validator \<Rightarrow>
            (case claimToken of
               None \<Rightarrow> Inl (Rejected (type_key claimToken @ '' is not supported''), s)
             | Some ct \<Rightarrow>
                (let options' = ValidationOptions_new deps (setValidatorOptions this) (type ct);
                     arg = (if passes_siopDid (type ct) then siopDid s else None);
                     inv = \<lparr>inv_type = type ct, inv_token = tokenToValidate queueItem,
                            inv_siopDid = arg, inv_response = None\<rparr>
                 in case validator (queue s) queueItem arg of
                      Inl e \<Rightarrow> Inl (e, s\<lparr>options := options', calls := calls s @ [inv]\<rparr>)
                    | Inr (response, added) \<Rightarrow>
                       (let q1 = foldl addToken (queue s) added;
                            q2 = setResult q1 i response ct
                        in Inr (\<lparr>options = options',
                                 siopDid = (if type ct = siop then did response else siopDid s),
                                 queue = q2,
                                 calls = calls s @ [inv\<lparr>inv_response := Some response\<rparr>]\<rparr>,
                                getNextToken q2))))))"

text \<open>
  The first-item reads of \<open>setValidationResult\<close>: \<open>siop.validationResponse.did\<close> is read
  for every siop item before the first is taken.
\<close>

fun response_dids :: "ValidationQueueItem list \<Rightarrow> error + string option list" where
  "response_dids [] = Inr []"
| "response_dids (x # xs) =
    (case validationResponse x of
       None \<Rightarrow> Inl TypeError
     | Some r \<Rightarrow> (case response_dids xs of Inl e \<Rightarrow> Inl e | Inr ds \<Rightarrow> Inr (did r # ds)))"

definition has_type :: "TokenType \<Rightarrow> ValidationQueueItem \<Rightarrow> bool" where
  "has_type ty item = (case validatedToken item of None \<Rightarrow> False | Some t \<Rightarrow> type t = ty)"

text \<open>\<open>xs[0]\<close> of an array of possibly undefined values.\<close>

definition first_of :: "'x option list \<Rightarrow> 'x option" where
  "first_of xs = (case xs of [] \<Rightarrow> None | x # _ \<Rightarrow> x)"

text \<open>\<open>Validator.setValidationResult\<close>.\<close>

definition setValidationResult :: "ValidationQueue \<Rightarrow> error + IValidationResult" where
  "setValidationResult q =
    (case response_dids (filter (has_type siop) q) of
       Inl e \<Rightarrow> Inl e
     | Inr dids \<Rightarrow>
        (let did0 = first_of dids;
             did1 = (if \<not> truthy_str did0
                     then first_of (map (\<lambda>vc. Option.bind (validatedToken vc)
                                                  (\<lambda>t. map_of (decodedToken t) ''aud''))
                                        (filter (has_type verifiableCredential) q))
                     else map_option JStr did0);
             idToks = map (\<lambda>item. map_option decodedToken (validatedToken item))
                        (filter (has_type idToken) q);
             vcs = map (\<lambda>vc. map_option decodedToken (validatedToken vc))
                     (filter (has_type verifiableCredential) q);
             si = first_of (map (\<lambda>si. map_option decodedToken (validatedToken si))
                              (filter (has_type selfIssued) q))
         in Inr \<lparr>subjectDid = (if truthy_opt did1 then the did1 else JStr []),
                 verifiableCredentials = vcs,
                 idTokens = idToks,
                 selfIssuedClaims = si\<rparr>))"

text \<open>The end of \<open>Validator.validate\<close>, after the loop.\<close>

definition finish :: "ValidationQueue \<Rightarrow> error + IValidationResponse" where
  "finish q =
    (case getResult q of
       None \<Rightarrow> Inl TypeError
     | Some response \<Rightarrow>
        (if result response
         then (case setValidationResult q of
                 Inl e \<Rightarrow> Inl e
               | Inr vr \<Rightarrow>
                   Inr (initial_response\<lparr>validationResult := Some vr\<rparr>))
         else Inr response))"

text \<open>
  The \<open>do\<close> loop. A validator may enqueue tokens for ever, so the loop is given a number
  of iterations it may run; \<open>None\<close> says that the call has not returned within them.
\<close>

fun validate_loop ::
  "'r Validator \<Rightarrow> ('r, 'a, 'e) Collaborators \<Rightarrow> nat \<Rightarrow> ('a, 'e) LoopState \<Rightarrow> nat \<Rightarrow>
   ('a, 'e) LoopState \<times> (error + IValidationResponse) option" where
  "validate_loop this deps 0 s i = (s, None)"
| "validate_loop this deps (Suc n) s i =
    (case loop_body this deps s i of
       Inl (e, s') \<Rightarrow> (s', Some (Inl e))
     | Inr (s', None) \<Rightarrow> (s', Some (finish (queue s')))
     | Inr (s', Some j) \<Rightarrow> validate_loop this deps n s' j)"

text \<open>
  \<open>Validator.validate\<close>, with the final state of its variables: a fresh options bundle
  for \<open>TokenType.siop\<close>, no \<open>siopDid\<close>, and a fresh queue holding the token.
\<close>

definition validate_run ::
  "'r Validator \<Rightarrow> ('r, 'a, 'e) Collaborators \<Rightarrow> nat \<Rightarrow> string \<Rightarrow>
   ('a, 'e) LoopState \<times> (error + IValidationResponse) option" where
  "validate_run this deps fuel token =
    (let validatorOption = setValidatorOptions this;
         s0 = \<lparr>options = ValidationOptions_new deps validatorOption siop,
               siopDid = None,
               queue = addToken [] token,
               calls = []\<rparr>
     in case getNextToken (queue s0) of
          None \<Rightarrow> (s0, Some (Inl TypeError))
        | Some i \<Rightarrow> validate_loop this deps fuel s0 i)"

definition validate ::
  "'r Validator \<Rightarrow> ('r, 'a, 'e) Collaborators \<Rightarrow> nat \<Rightarrow> string \<Rightarrow>
   (error + IValidationResponse) option" where
  "validate this deps fuel token = snd (validate_run this deps fuel token)"

section \<open>Notions the properties are stated with\<close>


text \<open>The type a classification assigns, \<open>None\<close> when it assigns none or throws.\<close>

definition classified_type ::
  "error + (IValidationResponse \<times> ClaimToken option) \<Rightarrow> TokenType option" where
  "classified_type c =
    (case c of Inl e \<Rightarrow> None | Inr (r, t) \<Rightarrow> map_option type t)"

text \<open>The invocations of the validator of one type, in order, and the first of a log.\<close>

definition calls_of_type :: "TokenType \<Rightarrow> Invocation list \<Rightarrow> Invocation list" where
  "calls_of_type ty cs = filter (\<lambda>c. inv_type c = ty) cs"

definition first_call :: "Invocation list \<Rightarrow> Invocation option" where
  "first_call cs = (case cs of [] \<Rightarrow> None | c # _ \<Rightarrow> Some c)"

text \<open>
  The aggregated result read off the log of a call, first items first: the subject DID
  is the DID of the response of the first siop invocation when that is set, otherwise the
  \<open>aud\<close> field of the decoded payload of the first credential when that is truthy,
  otherwise the empty string; then come the decoded payloads of all id tokens and of all
  credentials, and the decoded payload of the first self-issued token when there is one.
  A later siop response or a later credential is never consulted for the subject DID.
\<close>

definition aggregate_of_log ::
  "(string \<Rightarrow> (string \<times> json) list) \<Rightarrow> Invocation list \<Rightarrow> IValidationResult" where
  "aggregate_of_log dec cs =
    \<lparr>subjectDid =
       (let d = Option.bind (first_call (calls_of_type siop cs))
                  (\<lambda>c. Option.bind (inv_response c) did);
            a = Option.bind (first_call (calls_of_type verifiableCredential cs))
                  (\<lambda>c. map_of (dec (inv_token c)) ''aud'')
        in if truthy_str d then JStr (the d)
           else if truthy_opt a then the a else JStr []),
     verifiableCredentials =
       map (\<lambda>c. Some (dec (inv_token c))) (calls_of_type verifiableCredential cs),
     idTokens = map (\<lambda>c. Some (dec (inv_token c))) (calls_of_type idToken cs),
     selfIssuedClaims =
       map_option (\<lambda>c. dec (inv_token c)) (first_call (calls_of_type selfIssued cs))\<rparr>"

text \<open>
  The invariants of the loop. An item is processed by an invocation when it holds the
  token the invocation was made for, the response the invocation returned and the token
  the classifier built; the queue is always a run of processed items, one per invocation
  and in the same order, followed by pending items. The \<open>siopDid\<close> variable is the
  context of the log, and so was every \<open>siopDid\<close> argument when it was passed.
\<close>

definition processed_by ::
  "(string \<Rightarrow> (string \<times> json) list) \<Rightarrow> Invocation \<Rightarrow> ValidationQueueItem \<Rightarrow> bool" where
  "processed_by dec c item \<longleftrightarrow>
     tokenToValidate item = inv_token c \<and>
     validationResponse item = inv_response c \<and>
     inv_response c \<noteq> None \<and>
     validatedToken item = Some (ClaimToken_new dec (inv_type c) (inv_token c))"

definition pending :: "ValidationQueueItem \<Rightarrow> bool" where
  "pending item \<longleftrightarrow> validationResponse item = None \<and> validatedToken item = None"

definition queue_inv ::
  "(string \<Rightarrow> (string \<times> json) list) \<Rightarrow> ('a, 'e) LoopState \<Rightarrow> bool" where
  "queue_inv dec s \<longleftrightarrow>
     (\<exists>prc rest. queue s = prc @ rest \<and> list_all2 (processed_by dec) (calls s) prc \<and>
        (\<forall>item \<in> set rest. pending item))"


section \<open>A concrete setting\<close>

text \<open>
  Tokens, delegates and validators small enough to run the model on: the tolerant
  deserialization fails on the token \<open>garbage\<close> and otherwise attaches a payload chosen
  by the token, the strict one always succeeds.
\<close>

definition demo_payload :: "string \<Rightarrow> json" where
  "demo_payload token =
    (if token = ''vp1'' then JObj [(''vp'', JObj [])]
     else if token = ''siop1'' then JObj [(''claims'', JObj [])]
     else if token = ''vc1'' then JObj [(''vc'', JObj []), (''aud'', JStr ''did:alice'')]
     else if token = ''odd'' then JObj [(''vc'', JBool False), (''vp'', JObj [])]
     else JObj [(''sub'', JStr token)])"

definition demo_options :: "(unit, unit) IValidationOptions" where
  "demo_options =
    \<lparr>getSelfIssuedTokenObjectDelegate =
       (\<lambda>r token. if token = ''garbage''
                   then r\<lparr>result := False, status := 400,
                          detailedError := Some ''The token is malformed''\<rparr>
                   else r\<lparr>payloadObject := Some (demo_payload token)\<rparr>),
     getTokenObjectDelegate = (\<lambda>r token. r\<lparr>did := Some ''did:alice''\<rparr>),
     resolveDidAndGetKeysDelegate = (\<lambda>r. r),
     validateDidSignatureDelegate =
       (\<lambda>r sig. r\<lparr>result := False, status := 403,
                     detailedError := Some ''The signature is invalid''\<rparr>),
     checkTimeValidityOnTokenDelegate = (\<lambda>r. r),
     checkScopeValidityOnTokenDelegate = (\<lambda>r e. r),
     checkScopeValidityOnIdTokenDelegate = (\<lambda>r a. r)\<rparr>"

text \<open>Options whose strict deserialization succeeds and leaves no DID.\<close>

definition demo_options_no_did :: "(unit, unit) IValidationOptions" where
  "demo_options_no_did = demo_options\<lparr>getTokenObjectDelegate := (\<lambda>r token. r)\<rparr>"

definition demo_download :: "IValidationResponse \<Rightarrow> ClaimToken \<Rightarrow> IValidationResponse" where
  "demo_download r t =
    r\<lparr>result := False, status := 403, detailedError := Some ''No configuration''\<rparr>"

definition demo_deps :: "(unit, unit, unit) Collaborators" where
  "demo_deps =
    \<lparr>ValidationOptions_new = (\<lambda>vo ty. demo_options),
     decode = (\<lambda>token. case demo_payload token of JObj kvs \<Rightarrow> kvs | _ \<Rightarrow> [])\<rparr>"

definition demo_failure :: IValidationResponse where
  "demo_failure =
    initial_response\<lparr>result := False, status := 403,
                     detailedError := Some ''The signature is invalid'',
                     did := Some ''did:mallory''\<rparr>"

text \<open>
  A presentation whose validator enqueues a siop token and a credential, a siop validator
  that fails (its response still carries a DID), and a credential validator that succeeds.
\<close>

definition failing_siop_validator :: "unit Validator" where
  "failing_siop_validator =
    \<lparr>tokenValidators =
       [''verifiablePresentation'' \<mapsto> (\<lambda>q item sd. Inr (initial_response, [''siop1'', ''vc1''])),
        ''siop'' \<mapsto> (\<lambda>q item sd. Inr (demo_failure, [])),
        ''verifiableCredential'' \<mapsto> (\<lambda>q item sd. Inr (initial_response, []))],
     resolver = ()\<rparr>"

text \<open>
  A siop token whose validator succeeds with a DID and enqueues a credential and an id
  token, both of which validate.
\<close>

definition demo_validator :: "unit Validator" where
  "demo_validator =
    \<lparr>tokenValidators =
       [''siop'' \<mapsto> (\<lambda>q item sd. Inr (initial_response\<lparr>did := Some ''did:alice''\<rparr>,
                                      [''vc1'', ''id1''])),
        ''verifiableCredential'' \<mapsto> (\<lambda>q item sd. Inr (initial_response, [])),
        ''idToken'' \<mapsto> (\<lambda>q item sd. Inr (initial_response, []))],
     resolver = ()\<rparr>"

text \<open>A validator with an empty dispatch table.\<close>

definition empty_validator :: "unit Validator" where
  "empty_validator = \<lparr>tokenValidators = Map.empty, resolver = ()\<rparr>"

text \<open>
  A second setting, in which every token validates: presentations, siop tokens and
  credentials (\<open>vc0\<close> without an \<open>aud\<close>, any other with the audience \<open>did:carol\<close>).
  The presentation \<open>vp1\<close> holds two siop tokens and a credential, and only the response
  for the second siop token carries a DID; the presentation \<open>vp2\<close> holds two credentials.
\<close>

definition late_did_payload :: "string \<Rightarrow> json" where
  "late_did_payload token =
    (if token = ''vp1'' \<or> token = ''vp2'' then JObj [(''vp'', JObj [])]
     else if token = ''siop1'' \<or> token = ''siop2'' then JObj [(''claims'', JObj [])]
     else if token = ''vc0'' then JObj [(''vc'', JObj [])]
     else JObj [(''vc'', JObj []), (''aud'', JStr ''did:carol'')])"

definition late_did_deps :: "(unit, unit, unit) Collaborators" where
  "late_did_deps =
    \<lparr>ValidationOptions_new =
       (\<lambda>vo ty. demo_options\<lparr>getSelfIssuedTokenObjectDelegate :=
                    (\<lambda>r token. r\<lparr>payloadObject := Some (late_did_payload token)\<rparr>)\<rparr>),
     decode = (\<lambda>token. case late_did_payload token of JObj kvs \<Rightarrow> kvs | _ \<Rightarrow> [])\<rparr>"

definition late_did_validator :: "unit Validator" where
  "late_did_validator =
    \<lparr>tokenValidators =
       [''verifiablePresentation'' \<mapsto>
          (\<lambda>q item sd. Inr (initial_response,
             if tokenToValidate item = ''vp2'' then [''vc0'', ''vc1'']
             else [''siop1'', ''siop2'', ''vc1''])),
        ''siop'' \<mapsto>
          (\<lambda>q item sd. Inr (if tokenToValidate item = ''siop2''
                             then initial_response\<lparr>did := Some ''did:bob''\<rparr>
                             else initial_response, [])),
        ''verifiableCredential'' \<mapsto> (\<lambda>q item sd. Inr (initial_response, []))],
     resolver = ()\<rparr>"

section \<open>The pipelines stop at the first failure\<close>

text \<open>
  Claim C2. In the id-token pipeline and in the DID pipeline alike, a step that returns a
  response with \<open>result = false\<close> is the last step of the run, and its response is what
  the pipeline returns: wherever a failed response stands in the log of invoked
  delegates, nothing follows it, and the returned response is that one.
\<close>

theorem pipelines_stop_at_first_failure:
  assumes "BaseIdTokenValidation_validate opts expectedAudience download idTok = (r, l)
           \<or> DidValidation_validate opts expected token = (r, l)"
    and "l = pre @ (s, y) # post"
    and "\<not> result y"
  shows "post = [] \<and> r = y"
  using assms(1)
proof
  assume "BaseIdTokenValidation_validate opts expectedAudience download idTok = (r, l)"
  then show ?thesis
    using assms(2,3) unfolding BaseIdTokenValidation_validate_def Let_def
    by (auto split: if_splits simp: Cons_eq_append_conv append_eq_Cons_conv)
next
  assume "DidValidation_validate opts expected token = (r, l)"
  then show ?thesis
    using assms(2,3) unfolding DidValidation_validate_def Let_def
    by (auto split: if_splits simp: Cons_eq_append_conv append_eq_Cons_conv)
qed

text \<open>
  The id-token pipeline run on a token whose configuration cannot be downloaded, and the
  DID pipeline run on a token whose signature is invalid: both stop there.
\<close>

theorem pipelines_stop_at_first_failure_witness:
  "(BaseIdTokenValidation_validate demo_options () demo_download
      (ClaimToken_new (decode demo_deps) idToken ''id1'') =
      (demo_download (initial_response\<lparr>detailedError := Some [], did := Some ''did:alice''\<rparr>)
         (ClaimToken_new (decode demo_deps) idToken ''id1''),
       [(GetTokenObject, initial_response\<lparr>detailedError := Some [], did := Some ''did:alice''\<rparr>),
        (DownloadConfigurationAndValidate,
         demo_download (initial_response\<lparr>detailedError := Some [], did := Some ''did:alice''\<rparr>)
           (ClaimToken_new (decode demo_deps) idToken ''id1''))])
    \<and> \<not> result (demo_download (initial_response\<lparr>detailedError := Some [], did := Some ''did:alice''\<rparr>)
                   (ClaimToken_new (decode demo_deps) idToken ''id1'')))
   \<and> (map fst (snd (DidValidation_validate demo_options () ''siop1'')) =
         [GetTokenObject, ResolveDidAndGetKeys, ValidateDidSignature]
    \<and> \<not> result (fst (DidValidation_validate demo_options () ''siop1'')))"
proof -
  let ?t = "ClaimToken_new (decode demo_deps) idToken ''id1''"
  let ?r1 = "initial_response\<lparr>detailedError := Some [], did := Some ''did:alice''\<rparr>"
  let ?r2 = "demo_download ?r1 ?t"
  have run: "BaseIdTokenValidation_validate demo_options () demo_download ?t =
      (?r2, [(GetTokenObject, ?r1)] @ (DownloadConfigurationAndValidate, ?r2) # [])"
    by (simp add: BaseIdTokenValidation_validate_def demo_options_def demo_download_def
          initial_response_def ClaimToken_new_def Let_def)
  have failed: "\<not> result ?r2" by (simp add: demo_download_def)
  let ?d = "DidValidation_validate demo_options () ''siop1''"
  let ?g = "initial_response\<lparr>did := Some ''did:alice''\<rparr>"
  let ?f = "?g\<lparr>result := False, status := 403, detailedError := Some ''The signature is invalid''\<rparr>"
  have drun: "?d = (fst ?d, [(GetTokenObject, ?g), (ResolveDidAndGetKeys, ?g)]
                            @ (ValidateDidSignature, ?f) # [])"
    by (simp add: DidValidation_validate_def demo_options_def initial_response_def
          truthy_str_def Let_def)
  have dfailed: "\<not> result ?f" by simp
  from pipelines_stop_at_first_failure [OF disjI1 refl failed,
      of demo_options "()" demo_download ?t ?r2 "[(GetTokenObject, ?r1)]"
         DownloadConfigurationAndValidate "[]"] run
    pipelines_stop_at_first_failure [OF disjI2 refl dfailed,
      of demo_options "()" "''siop1''" "fst ?d" "[(GetTokenObject, ?g), (ResolveDidAndGetKeys, ?g)]"
         ValidateDidSignature "[]"] drun
  have "fst ?d = ?f" by simp
  then have "\<not> result (fst ?d)" by simp
  moreover have "map fst (snd ?d) = [GetTokenObject, ResolveDidAndGetKeys, ValidateDidSignature]"
    by (subst drun) simp
  ultimately show ?thesis using run failed by simp
qed

section \<open>A token without a DID\<close>

text \<open>
  Claim C8. When the deserialization step of \<open>DidValidation.validate\<close> succeeds and
  leaves no DID on the response (none at all, or the empty string), the pipeline returns
  the failure with \<open>result = false\<close>, status 403 and the message
  \<open>The input token does not contain the DID\<close>; the deserializer is the only delegate
  invoked, and a response is returned, nothing is thrown.
\<close>

theorem missing_did_fails_before_resolution:
  assumes "r1 = getTokenObjectDelegate opts initial_response token"
    and "result r1"
    and "\<not> truthy_str (did r1)"
  shows "DidValidation_validate opts expected token =
           (\<lparr>result = False, status = 403,
             detailedError = Some ''The input token does not contain the DID'',
             did = None, payloadObject = None, didSignature = None,
             validationResult = None\<rparr>,
            [(GetTokenObject, r1)])"
  using assms by (simp add: DidValidation_validate_def missing_did_response_def)

theorem missing_did_fails_before_resolution_witness:
  "result (getTokenObjectDelegate demo_options_no_did initial_response ''x'') \<and>
   \<not> truthy_str (did (getTokenObjectDelegate demo_options_no_did initial_response ''x'')) \<and>
   DidValidation_validate demo_options_no_did () ''x'' =
     (\<lparr>result = False, status = 403,
       detailedError = Some ''The input token does not contain the DID'',
       did = None, payloadObject = None, didSignature = None, validationResult = None\<rparr>,
      [(GetTokenObject, initial_response)])"
proof -
  let ?r1 = "getTokenObjectDelegate demo_options_no_did initial_response ''x''"
  have r1: "?r1 = initial_response"
    by (simp add: demo_options_no_did_def demo_options_def)
  have ok: "result ?r1"
    by (simp add: demo_options_no_did_def demo_options_def initial_response_def)
  have nodid: "\<not> truthy_str (did ?r1)"
    by (simp add: demo_options_no_did_def demo_options_def initial_response_def truthy_str_def)
  from missing_did_fails_before_resolution [OF refl ok nodid, of "()"] ok nodid r1
  show ?thesis by simp
qed

section \<open>The classifier\<close>

text \<open>
  Claim C3, as amended. \<open>getTokenType\<close> tests the fields for truthiness, not for presence.
  When the tolerant deserialization succeeds and the payload can be read, the first match
  wins: a truthy \<open>vc\<close> field gives verifiableCredential whatever else the payload holds,
  else a truthy \<open>vp\<close> field gives verifiablePresentation, else a truthy \<open>claims\<close> field
  gives siop, else the strict deserialization is attempted and a failure with status
  exactly 403 gives selfIssued, and every remaining case gives idToken.
\<close>

theorem getTokenType_first_truthy_match:
  assumes "r1 = getSelfIssuedTokenObjectDelegate validationOptions initial_response token"
    and "result r1"
    and "get_field (payloadObject r1) ''vc'' = Inr vc"
    and "get_field (payloadObject r1) ''vp'' = Inr vp"
    and "get_field (payloadObject r1) ''claims'' = Inr claims"
    and "r2 = getTokenObjectDelegate validationOptions r1 token"
  shows "classified_type (getTokenType validationOptions dec token) =
           Some (if truthy_opt vc then verifiableCredential
                 else if truthy_opt vp then verifiablePresentation
                 else if truthy_opt claims then siop
                 else if \<not> result r2 \<and> status r2 = 403 then selfIssued
                 else idToken)"
  using assms by (simp add: getTokenType_def classified_type_def ClaimToken_new_def Let_def)

theorem getTokenType_first_truthy_match_witness:
  "result (getSelfIssuedTokenObjectDelegate demo_options initial_response ''vc1'') \<and>
   get_field (payloadObject (getSelfIssuedTokenObjectDelegate demo_options initial_response ''vc1''))
     ''vc'' = Inr (Some (JObj [])) \<and>
   get_field (payloadObject (getSelfIssuedTokenObjectDelegate demo_options initial_response ''vc1''))
     ''vp'' = Inr None \<and>
   get_field (payloadObject (getSelfIssuedTokenObjectDelegate demo_options initial_response ''vc1''))
     ''claims'' = Inr None \<and>
   classified_type (getTokenType demo_options (decode demo_deps) ''vc1'') =
     Some verifiableCredential"
proof -
  let ?r1 = "getSelfIssuedTokenObjectDelegate demo_options initial_response ''vc1''"
  have ok: "result ?r1" by (simp add: demo_options_def initial_response_def)
  have vc: "get_field (payloadObject ?r1) ''vc'' = Inr (Some (JObj []))"
    by (simp add: demo_options_def demo_payload_def)
  have vp: "get_field (payloadObject ?r1) ''vp'' = Inr None"
    by (simp add: demo_options_def demo_payload_def)
  have cl: "get_field (payloadObject ?r1) ''claims'' = Inr None"
    by (simp add: demo_options_def demo_payload_def)
  from getTokenType_first_truthy_match [OF refl ok vc vp cl refl, of "decode demo_deps"]
    ok vc vp cl
  show ?thesis by (simp add: truthy_opt_def)
qed

text \<open>
  The claim as it was stated fails on a payload that has a \<open>vc\<close> field holding \<open>false\<close>
  beside a presentation: the field is there, and the token is classified as a
  verifiablePresentation.
\<close>

theorem vc_field_present_but_falsy_counterexample:
  "get_field (payloadObject (getSelfIssuedTokenObjectDelegate demo_options initial_response ''odd''))
     ''vc'' = Inr (Some (JBool False)) \<and>
   classified_type (getTokenType demo_options (decode demo_deps) ''odd'') =
     Some verifiablePresentation"
  by (simp add: getTokenType_def classified_type_def ClaimToken_new_def demo_options_def
        demo_payload_def initial_response_def truthy_opt_def)

section \<open>Facts about the queue\<close>

lemma foldl_addToken: "foldl addToken q added = q @ map new_item added"
  by (induction added arbitrary: q) (simp_all add: addToken_def)

lemma next_from_None_iff:
  "next_from k q = None \<longleftrightarrow> (\<forall>x \<in> set q. validationResponse x \<noteq> None)"
  by (induction q arbitrary: k) auto

lemma next_from_in_range:
  "next_from k q = Some i \<Longrightarrow>
   k \<le> i \<and> i - k < length q \<and> validationResponse (q ! (i - k)) = None"
proof (induction q arbitrary: k)
  case Nil
  then show ?case by simp
next
  case (Cons x xs)
  show ?case
  proof (cases "validationResponse x = None")
    case True
    then show ?thesis using Cons.prems by simp
  next
    case False
    with Cons.prems have "next_from (Suc k) xs = Some i" by (simp split: if_splits)
    from Cons.IH[OF this] show ?thesis by (auto simp: Suc_diff_Suc nth_Cons')
  qed
qed

text \<open>The position \<open>getNextToken\<close> returns is one of the queue, and its item is pending.\<close>

lemma getNextToken_in_range:
  "getNextToken q = Some i \<Longrightarrow> i < length q \<and> validationResponse (q ! i) = None"
  using next_from_in_range[of 0 q i] by (simp add: getNextToken_def)

lemma next_from_skip:
  "\<forall>x \<in> set prc. validationResponse x \<noteq> None \<Longrightarrow>
   next_from k (prc @ rest) = next_from (k + length prc) rest"
  by (induction prc arbitrary: k) auto

lemma processed_by_not_None:
  "list_all2 (processed_by dec) cs prc \<Longrightarrow> \<forall>x \<in> set prc. validationResponse x \<noteq> None"
  by (induction rule: list_all2_induct) (auto simp: processed_by_def)

lemma getNextToken_split:
  assumes "list_all2 (processed_by dec) cs prc" and "\<forall>item \<in> set rest. pending item"
  shows "getNextToken (prc @ rest) = (if rest = [] then None else Some (length cs))"
proof -
  have d: "\<forall>x \<in> set prc. validationResponse x \<noteq> None"
    using assms(1) by (rule processed_by_not_None)
  have l: "length cs = length prc" using assms(1) by (rule list_all2_lengthD)
  show ?thesis
  proof (cases rest)
    case Nil
    then show ?thesis using d by (simp add: getNextToken_def next_from_None_iff)
  next
    case (Cons x xs)
    then have "validationResponse x = None" using assms(2) by (simp add: pending_def)
    then show ?thesis using Cons d l by (simp add: getNextToken_def next_from_skip)
  qed
qed

lemma list_all2_last:
  "list_all2 P xs ys \<Longrightarrow> xs \<noteq> [] \<Longrightarrow> P (last xs) (last ys)"
  by (induction rule: list_all2_induct) (auto dest: list_all2_lengthD)

section \<open>One iteration of the loop\<close>

lemma loop_body_Inl_queue:
  "loop_body this deps s i = Inl (e, s') \<Longrightarrow> queue s' = queue s"
  by (auto simp: loop_body_def Let_def split: sum.splits option.splits prod.splits)

lemma loop_body_Inr_queue_inv:
  assumes "loop_body this deps s i = Inr (s', nxt)"
    and "queue_inv (decode deps) s" and "getNextToken (queue s) = Some i"
  shows "queue_inv (decode deps) s' \<and> nxt = getNextToken (queue s') \<and>
         length (calls s') = Suc (length (calls s))"
proof -
  from assms(2) obtain prc rest where q: "queue s = prc @ rest"
    and d: "list_all2 (processed_by (decode deps)) (calls s) prc"
    and r: "\<forall>item \<in> set rest. pending item"
    by (auto simp: queue_inv_def)
  from assms(3) q getNextToken_split[OF d r] have rne: "rest \<noteq> []" and i: "i = length (calls s)"
    by (auto split: if_splits)
  then obtain x xs where rest: "rest = x # xs" by (cases rest) auto
  have l: "length (calls s) = length prc" using d by (rule list_all2_lengthD)
  from assms(1) obtain ct response added where
    ct: "ct = ClaimToken_new (decode deps) (type ct) (tokenToValidate (queue s ! i))"
    and qs: "queue s' = setResult (foldl addToken (queue s) added) i response ct"
    and cs: "calls s' = calls s @ [\<lparr>inv_type = type ct, inv_token = tokenToValidate (queue s ! i),
              inv_siopDid = (if passes_siopDid (type ct) then siopDid s else None),
              inv_response = Some response\<rparr>]"
    and n: "nxt = getNextToken (queue s')"
    by (auto simp: loop_body_def Let_def getTokenType_def ClaimToken_new_def
             split: sum.splits option.splits prod.splits if_splits)
  let ?x' = "x\<lparr>validatedToken := Some ct, validationResponse := Some response\<rparr>"
  have qi: "queue s ! i = x" using q rest i l by (simp add: nth_append)
  have qs': "queue s' = (prc @ [?x']) @ (xs @ map new_item added)"
    using qs q rest i l by (simp add: foldl_addToken setResult_def nth_append list_update_append)
  have "list_all2 (processed_by (decode deps)) (calls s') (prc @ [?x'])"
    unfolding cs using d ct qi
    by (intro list_all2_appendI) (auto simp: processed_by_def)
  moreover have "\<forall>item \<in> set (xs @ map new_item added). pending item"
    using r rest by (auto simp: pending_def new_item_def)
  ultimately have "queue_inv (decode deps) s'"
    unfolding queue_inv_def using qs' by blast
  then show ?thesis using n cs by simp
qed






section \<open>The aggregation, read off the log\<close>

lemma processed_filter:
  "list_all2 (processed_by dec) cs q \<Longrightarrow>
   list_all2 (processed_by dec) (calls_of_type ty cs) (filter (has_type ty) q)"
  by (induction rule: list_all2_induct)
     (auto simp: calls_of_type_def processed_by_def has_type_def ClaimToken_new_def)

lemma processed_response_dids:
  "list_all2 (processed_by dec) cs q \<Longrightarrow>
   response_dids q = Inr (map (\<lambda>c. Option.bind (inv_response c) did) cs)"
  by (induction rule: list_all2_induct) (auto simp: processed_by_def)

lemma processed_decoded:
  "list_all2 (processed_by dec) cs q \<Longrightarrow>
   map (\<lambda>item. map_option decodedToken (validatedToken item)) q =
   map (\<lambda>c. Some (dec (inv_token c))) cs"
  by (induction rule: list_all2_induct) (auto simp: processed_by_def ClaimToken_new_def)

lemma processed_aud:
  "list_all2 (processed_by dec) cs q \<Longrightarrow>
   map (\<lambda>vc. Option.bind (validatedToken vc) (\<lambda>t. map_of (decodedToken t) ''aud'')) q =
   map (\<lambda>c. map_of (dec (inv_token c)) ''aud'') cs"
  by (induction rule: list_all2_induct) (auto simp: processed_by_def ClaimToken_new_def)

lemma processed_tokens:
  "list_all2 (processed_by dec) cs q \<Longrightarrow> map inv_token cs = map tokenToValidate q"
  by (induction rule: list_all2_induct) (auto simp: processed_by_def)

lemma processed_getResult:
  assumes "list_all2 (processed_by dec) cs q" and "cs \<noteq> []"
  shows "getResult q = inv_response (last cs) \<and> inv_response (last cs) \<noteq> None"
proof -
  have all: "\<forall>x \<in> set q. validationResponse x \<noteq> None"
    using assms(1) by (rule processed_by_not_None)
  have len: "length cs = length q" using assms(1) by (rule list_all2_lengthD)
  with assms(2) have qne: "q \<noteq> []" by auto
  have "processed_by dec (last cs) (last q)"
    using assms by (rule list_all2_last)
  moreover have "getResult q = validationResponse (last q)"
  proof -
    obtain xs x where q: "q = xs @ [x]" using qne by (cases q rule: rev_cases) auto
    have "filter (\<lambda>item. validationResponse item \<noteq> None) q = q" using all by simp
    then show ?thesis using q by (simp add: getResult_def)
  qed
  ultimately show ?thesis by (simp add: processed_by_def)
qed

text \<open>
  Once every item is processed, \<open>setValidationResult\<close> computes the first-item
  aggregation over the log, and \<open>finish\<close> returns a response.
\<close>

lemma setValidationResult_processed:
  assumes "list_all2 (processed_by dec) cs q"
  shows "setValidationResult q = Inr (aggregate_of_log dec cs)"
proof -
  have a: "first_of (map (\<lambda>c. Option.bind (inv_response c) did) xs) =
           Option.bind (first_call xs) (\<lambda>c. Option.bind (inv_response c) did)" for xs
    by (cases xs) (simp_all add: first_of_def first_call_def)
  have b: "first_of (map (\<lambda>c. map_of (dec (inv_token c)) ''aud'') xs) =
           Option.bind (first_call xs) (\<lambda>c. map_of (dec (inv_token c)) ''aud'')" for xs
    by (cases xs) (simp_all add: first_of_def first_call_def)
  have c: "first_of (map (\<lambda>c. Some (dec (inv_token c))) xs) =
           map_option (\<lambda>c. dec (inv_token c)) (first_call xs)" for xs
    by (cases xs) (simp_all add: first_of_def first_call_def)
  have d: "truthy_str x \<Longrightarrow> truthy_opt (map_option JStr x)" for x
    by (cases x) (simp_all add: truthy_str_def truthy_opt_def)
  show ?thesis
    unfolding setValidationResult_def aggregate_of_log_def
    by (simp add: processed_response_dids[OF processed_filter[OF assms]]
          processed_decoded[OF processed_filter[OF assms]]
          processed_aud[OF processed_filter[OF assms]] a b c d Let_def)
       (auto simp: truthy_str_def split: option.splits)
qed

lemma finish_processed:
  assumes "list_all2 (processed_by dec) cs q" and "cs \<noteq> []"
  shows "\<exists>g. inv_response (last cs) = Some g \<and> getResult q = Some g \<and>
           finish q =
             (if result g
              then Inr (initial_response\<lparr>validationResult := Some (aggregate_of_log dec cs)\<rparr>)
              else Inr g)"
proof -
  from processed_getResult[OF assms] obtain g where
    g: "inv_response (last cs) = Some g" "getResult q = Some g" by auto
  then show ?thesis
    by (simp add: finish_def setValidationResult_processed[OF assms(1)])
qed

section \<open>The whole loop\<close>



lemma validate_loop_end:
  assumes "validate_loop this deps n s i = (s', Some out)"
    and "queue_inv (decode deps) s" and "getNextToken (queue s) = Some i"
  shows "(\<forall>e. out = Inl e \<longrightarrow> (\<exists>item \<in> set (queue s'). validationResponse item = None)) \<and>
         (\<forall>r. out = Inr r \<longrightarrow>
            list_all2 (processed_by (decode deps)) (calls s') (queue s') \<and> calls s' \<noteq> [] \<and>
            finish (queue s') = Inr r)"
  using assms
proof (induction n arbitrary: s i)
  case 0
  then show ?case by simp
next
  case (Suc n)
  show ?case
  proof (cases "loop_body this deps s i")
    case (Inl a)
    obtain e s1 where a: "a = (e, s1)" by (cases a)
    have "queue s1 = queue s" using Inl a by (auto dest: loop_body_Inl_queue)
    moreover have "\<exists>item \<in> set (queue s). validationResponse item = None"
      using Suc.prems(3) next_from_None_iff[of 0 "queue s"] by (auto simp: getNextToken_def)
    moreover have "s' = s1" "out = Inl e" using Suc.prems(1) Inl a by auto
    ultimately show ?thesis by simp
  next
    case (Inr b)
    obtain s1 nxt where b: "b = (s1, nxt)" by (cases b)
    from loop_body_Inr_queue_inv[OF _ Suc.prems(2,3), of this s1 nxt] Inr b
    have inv: "queue_inv (decode deps) s1" and nxt: "nxt = getNextToken (queue s1)"
      and ne: "calls s1 \<noteq> []" by auto
    show ?thesis
    proof (cases nxt)
      case None
      then have s': "s' = s1" and out: "out = finish (queue s1)"
        using Suc.prems(1) Inr b by auto
      from inv obtain prc rest where q: "queue s1 = prc @ rest"
        and d: "list_all2 (processed_by (decode deps)) (calls s1) prc"
        and r: "\<forall>item \<in> set rest. pending item"
        by (auto simp: queue_inv_def)
      from getNextToken_split[OF d r] q nxt None have "rest = []" by (auto split: if_splits)
      then have all: "list_all2 (processed_by (decode deps)) (calls s1) (queue s1)"
        using q d by simp
      from finish_processed[OF all ne] obtain r where "finish (queue s1) = Inr r"
        by (auto split: if_splits)
      then show ?thesis using s' out all ne by auto
    next
      case (Some j)
      then have "validate_loop this deps n s1 j = (s', Some out)"
        using Suc.prems(1) Inr b by simp
      from Suc.IH[OF this inv] nxt Some show ?thesis by simp
    qed
  qed
qed

lemma initial_queue_inv:
  "queue_inv dec \<lparr>options = opts, siopDid = None, queue = addToken [] token, calls = []\<rparr>"
  unfolding queue_inv_def
  by (rule exI[of _ "[]"]) (simp add: addToken_def pending_def new_item_def)

lemma initial_next: "getNextToken (addToken [] token) = Some 0"
  by (simp add: getNextToken_def addToken_def new_item_def)

lemma validate_run_loop:
  "validate_run this deps n token =
   validate_loop this deps n
     \<lparr>options = ValidationOptions_new deps (setValidatorOptions this) siop,
      siopDid = None, queue = addToken [] token, calls = []\<rparr> 0"
  by (simp add: validate_run_def Let_def initial_next)

lemma validate_run_end:
  assumes "validate_run this deps n token = (s, Some out)"
  shows "(\<forall>e. out = Inl e \<longrightarrow> (\<exists>item \<in> set (queue s). validationResponse item = None)) \<and>
         (\<forall>r. out = Inr r \<longrightarrow>
            list_all2 (processed_by (decode deps)) (calls s) (queue s) \<and> calls s \<noteq> [] \<and>
            finish (queue s) = Inr r)"
proof -
  let ?s0 = "\<lparr>options = ValidationOptions_new deps (setValidatorOptions this) siop,
              siopDid = None, queue = addToken [] token, calls = []\<rparr>"
  have "validate_loop this deps n ?s0 0 = (s, Some out)"
    using assms by (simp add: validate_run_loop)
  from validate_loop_end[OF this initial_queue_inv] show ?thesis
    by (simp add: initial_next)
qed

text \<open>
  The bound on the iterations is honest: the loop gives up only after that many validator
  invocations, with an item still pending. A call whose queue never holds more than \<open>n\<close>
  tokens returns within \<open>n\<close> iterations.
\<close>

lemma validate_loop_out_of_fuel:
  assumes "validate_loop this deps n s i = (s', None)"
    and "queue_inv (decode deps) s" and "getNextToken (queue s) = Some i"
  shows "queue_inv (decode deps) s' \<and> getNextToken (queue s') \<noteq> None \<and>
         length (calls s') = length (calls s) + n"
  using assms
proof (induction n arbitrary: s i)
  case 0
  then show ?case by simp
next
  case (Suc n)
  show ?case
  proof (cases "loop_body this deps s i")
    case (Inl a)
    then show ?thesis using Suc.prems(1) by (cases a) simp
  next
    case (Inr b)
    obtain s1 nxt where b: "b = (s1, nxt)" by (cases b)
    from loop_body_Inr_queue_inv[OF _ Suc.prems(2,3), of this s1 nxt] Inr b
    have inv: "queue_inv (decode deps) s1" and nxt: "nxt = getNextToken (queue s1)"
      and len: "length (calls s1) = Suc (length (calls s))" by auto
    show ?thesis
    proof (cases nxt)
      case None
      then show ?thesis using Suc.prems(1) Inr b by simp
    next
      case (Some j)
      then have "validate_loop this deps n s1 j = (s', None)"
        using Suc.prems(1) Inr b by simp
      from Suc.IH[OF this inv] nxt Some len show ?thesis by simp
    qed
  qed
qed

lemma validate_returns_unless_queue_outgrows_bound:
  assumes "validate_run this deps n token = (s, None)"
  shows "n < length (queue s)"
proof -
  let ?s0 = "\<lparr>options = ValidationOptions_new deps (setValidatorOptions this) siop,
              siopDid = None, queue = addToken [] token, calls = []\<rparr>"
  have "validate_loop this deps n ?s0 0 = (s, None)"
    using assms by (simp add: validate_run_loop)
  from validate_loop_out_of_fuel[OF this initial_queue_inv]
  have inv: "queue_inv (decode deps) s" and nxt: "getNextToken (queue s) \<noteq> None"
    and len: "length (calls s) = n" by (simp_all add: initial_next)
  from inv obtain prc rest where q: "queue s = prc @ rest"
    and d: "list_all2 (processed_by (decode deps)) (calls s) prc"
    and r: "\<forall>item \<in> set rest. pending item"
    by (auto simp: queue_inv_def)
  from getNextToken_split[OF d r] q nxt have "rest \<noteq> []" by (auto split: if_splits)
  then show ?thesis using q len list_all2_lengthD[OF d] by (cases rest) auto
qed

lemma validate_loop_more_fuel:
  "validate_loop this deps n s i = (s', Some out) \<Longrightarrow>
   validate_loop this deps (n + k) s i = (s', Some out)"
proof (induction n arbitrary: s i)
  case 0
  then show ?case by simp
next
  case (Suc n)
  then show ?case
    by (auto split: sum.splits prod.splits option.splits)
qed

section \<open>Runs of the concrete setting\<close>

lemma failing_siop_run_calls:
  "calls (fst (validate_run failing_siop_validator demo_deps 3 ''vp1'')) =
    [\<lparr>inv_type = verifiablePresentation, inv_token = ''vp1'', inv_siopDid = None,
       inv_response = Some initial_response\<rparr>,
     \<lparr>inv_type = siop, inv_token = ''siop1'', inv_siopDid = None,
       inv_response = Some demo_failure\<rparr>,
     \<lparr>inv_type = verifiableCredential, inv_token = ''vc1'',
       inv_siopDid = Some ''did:mallory'', inv_response = Some initial_response\<rparr>]"
  by code_simp

lemma failing_siop_run_outcome:
  "snd (validate_run failing_siop_validator demo_deps 3 ''vp1'') =
    Some (Inr \<lparr>result = True, status = 200, detailedError = None, did = None,
               payloadObject = None, didSignature = None,
               validationResult = Some
                 \<lparr>subjectDid = JStr ''did:mallory'',
                  verifiableCredentials =
                    [Some [(''vc'', JObj []), (''aud'', JStr ''did:alice'')]],
                  idTokens = [],
                  selfIssuedClaims = None\<rparr>\<rparr>)"
  by code_simp


lemma demo_run_queue:
  "map (\<lambda>item. (tokenToValidate item, map_option result (validationResponse item)))
     (queue (fst (validate_run demo_validator demo_deps 3 ''siop1''))) =
    [(''siop1'', Some True), (''vc1'', Some True), (''id1'', Some True)]"
  by code_simp

lemma demo_run_outcome:
  "snd (validate_run demo_validator demo_deps 3 ''siop1'') =
    Some (Inr \<lparr>result = True, status = 200, detailedError = None, did = None,
               payloadObject = None, didSignature = None,
               validationResult = Some
                 \<lparr>subjectDid = JStr ''did:alice'',
                  verifiableCredentials =
                    [Some [(''vc'', JObj []), (''aud'', JStr ''did:alice'')]],
                  idTokens = [Some [(''sub'', JStr ''id1'')]],
                  selfIssuedClaims = None\<rparr>\<rparr>)"
  by code_simp


text \<open>Scenario 1 of the spec: a single id token, all of whose steps succeed.\<close>

lemma single_id_token_run:
  "validate demo_validator demo_deps 1 ''id1'' =
    Some (Inr \<lparr>result = True, status = 200, detailedError = None, did = None,
               payloadObject = None, didSignature = None,
               validationResult = Some
                 \<lparr>subjectDid = JStr [],
                  verifiableCredentials = [],
                  idTokens = [Some [(''sub'', JStr ''id1'')]],
                  selfIssuedClaims = None\<rparr>\<rparr>)"
  by code_simp

lemma demo_run_all_succeed:
  "list_all (\<lambda>item. case validationResponse item of None \<Rightarrow> False | Some r \<Rightarrow> result r)
     (queue (fst (validate_run demo_validator demo_deps 3 ''siop1'')))"
  by code_simp

section \<open>A failing item does not stop the orchestrator\<close>

text \<open>
  Claim C1, as amended. The loop of \<open>Validator.validate\<close> never looks at the result of a
  response: it goes on until \<open>getNextToken\<close> yields no item. So whenever the call returns
  a response, every item of the queue has been processed, by one validator invocation
  each and in queue order, whatever the earlier responses were; only then is
  \<open>queue.getResult()\<close> consulted, and the call returns that response unchanged when its
  result is false, and a fresh success with status 200 and the aggregation otherwise.
\<close>

theorem validate_processes_every_item:
  assumes "validate_run this deps n token = (s, Some (Inr r))"
  shows "map inv_token (calls s) = map tokenToValidate (queue s) \<and>
         map inv_response (calls s) = map validationResponse (queue s) \<and>
         list_all (\<lambda>item. validationResponse item \<noteq> None) (queue s) \<and>
         (\<exists>g. getResult (queue s) = Some g \<and>
              (if result g then result r \<and> status r = 200 \<and> validationResult r \<noteq> None
               else r = g))"
proof -
  from validate_run_end[OF assms]
  have all: "list_all2 (processed_by (decode deps)) (calls s) (queue s)"
    and ne: "calls s \<noteq> []" and fin: "finish (queue s) = Inr r" by auto
  from finish_processed[OF all ne] fin obtain g where
    "getResult (queue s) = Some g"
    "if result g then result r \<and> status r = 200 \<and> validationResult r \<noteq> None else r = g"
    by (auto simp: initial_response_def split: if_splits)
  moreover have "list_all (\<lambda>item. validationResponse item \<noteq> None) (queue s)"
    using processed_by_not_None[OF all] by (simp add: list_all_iff)
  moreover have "map inv_response (calls s) = map validationResponse (queue s)"
    using all by (induction rule: list_all2_induct) (auto simp: processed_by_def)
  ultimately show ?thesis using processed_tokens[OF all] by blast
qed

text \<open>
  A presentation whose validator enqueues a siop token and a credential; the siop token
  fails and the credential is validated all the same.
\<close>

theorem validate_processes_every_item_witness:
  "snd (validate_run failing_siop_validator demo_deps 3 ''vp1'') =
     Some (Inr \<lparr>result = True, status = 200, detailedError = None, did = None,
                payloadObject = None, didSignature = None,
                validationResult = Some
                  \<lparr>subjectDid = JStr ''did:mallory'',
                   verifiableCredentials =
                     [Some [(''vc'', JObj []), (''aud'', JStr ''did:alice'')]],
                   idTokens = [],
                   selfIssuedClaims = None\<rparr>\<rparr>) \<and>
   map tokenToValidate (queue (fst (validate_run failing_siop_validator demo_deps 3 ''vp1''))) =
     [''vp1'', ''siop1'', ''vc1''] \<and>
   list_all (\<lambda>item. validationResponse item \<noteq> None)
     (queue (fst (validate_run failing_siop_validator demo_deps 3 ''vp1'')))"
proof -
  let ?run = "validate_run failing_siop_validator demo_deps 3 ''vp1''"
  let ?r = "\<lparr>result = True, status = 200, detailedError = None, did = None,
             payloadObject = None, didSignature = None,
             validationResult = Some
               \<lparr>subjectDid = JStr ''did:mallory'',
                verifiableCredentials =
                  [Some [(''vc'', JObj []), (''aud'', JStr ''did:alice'')]],
                idTokens = [],
                selfIssuedClaims = None\<rparr>\<rparr>"
  have h: "?run = (fst ?run, Some (Inr ?r))"
    by (simp add: prod_eq_iff failing_siop_run_outcome)
  from validate_processes_every_item [OF h]
  have "map inv_token (calls (fst ?run)) = map tokenToValidate (queue (fst ?run))"
    and "list_all (\<lambda>item. validationResponse item \<noteq> None) (queue (fst ?run))"
    by simp_all
  then show ?thesis
    using failing_siop_run_outcome by (simp add: failing_siop_run_calls)
qed

text \<open>
  The claim as it was stated fails on that run: the validator of \<open>siop1\<close> returns a
  response with \<open>result = false\<close>, and the validator of the item enqueued behind it is
  still invoked.
\<close>

theorem loop_goes_on_after_failure_counterexample:
  "map (\<lambda>c. (inv_token c, map_option result (inv_response c)))
     (calls (fst (validate_run failing_siop_validator demo_deps 3 ''vp1''))) =
   [(''vp1'', Some True), (''siop1'', Some False), (''vc1'', Some True)]"
  by (simp add: failing_siop_run_calls initial_response_def demo_failure_def)

section \<open>A token that cannot be parsed\<close>

text \<open>
  When the tolerant deserialization fails, \<open>getTokenType\<close> hands the failure back with an
  empty token, and \<open>validate\<close> goes straight to the dispatch table with the type
  \<open>undefined\<close>: the call is rejected with a message about the missing validator (or,
  should the table have an entry under that name, about the unsupported type), and the
  parse failure is lost.
\<close>

lemma classification_failure_rejects:
  assumes "\<not> result (getSelfIssuedTokenObjectDelegate (options s) initial_response
                        (tokenToValidate (queue s ! i)))"
  shows "validate_loop this deps (Suc n) s i =
           (s, Some (Inl (Rejected
              (if tokenValidators this ''undefined'' = None
               then ''undefined does not has a TokenValidator''
               else ''undefined is not supported''))))"
  using assms by (auto simp: loop_body_def getTokenType_def type_key_def split: option.splits)

text \<open>
  Claim C4. The code does not do what the claim says: on the token \<open>garbage\<close>, whose
  tolerant deserialization fails with status 400, the classifier returns that failure,
  and \<open>Validator.validate\<close> does not return it: the promise is rejected with
  \<open>undefined does not has a TokenValidator\<close>, after a lookup in the dispatch table.
\<close>

theorem parse_failure_is_lost_in_rejection:
  "getTokenType demo_options (decode demo_deps) ''garbage'' =
     Inr (\<lparr>result = False, status = 400, detailedError = Some ''The token is malformed'',
           did = None, payloadObject = None, didSignature = None, validationResult = None\<rparr>,
          None) \<and>
   validate demo_validator demo_deps 1 ''garbage'' =
     Some (Inl (Rejected ''undefined does not has a TokenValidator'')) \<and>
   calls (fst (validate_run demo_validator demo_deps 1 ''garbage'')) = []"
  by code_simp

section \<open>The DID context of credentials and presentations\<close>






section \<open>The aggregated result\<close>

text \<open>
  Claim C6, as amended. When the call has come to an end and every item of the queue
  holds a response with \<open>result = true\<close>, \<open>Validator.validate\<close> returns a response
  with \<open>result = true\<close> and status 200 whose aggregated result is taken from the
  processed items (one per validator invocation, in order) as follows: the subject DID is
  the DID of the first siop item's response when that is set, otherwise the \<open>aud\<close> of
  the first credential's decoded payload when that is truthy, otherwise the empty string,
  whatever later siop items or credentials hold; the id tokens and the credentials are
  the decoded payloads of all items of those types; the self-issued claims are the
  decoded payload of the first selfIssued item, if any.
\<close>

theorem validate_aggregates_on_success:
  assumes "validate_run this deps n token = (s, Some out)"
    and "list_all (\<lambda>item. case validationResponse item of None \<Rightarrow> False
                           | Some r \<Rightarrow> result r) (queue s)"
  shows "map inv_token (calls s) = map tokenToValidate (queue s) \<and>
         out = Inr \<lparr>result = True, status = 200, detailedError = None, did = None,
                    payloadObject = None, didSignature = None,
                    validationResult = Some (aggregate_of_log (decode deps) (calls s))\<rparr>"
proof -
  have no_pending: "\<not> (\<exists>item \<in> set (queue s). validationResponse item = None)"
    using assms(2) by (auto simp: list_all_iff split: option.splits)
  with validate_run_end[OF assms(1)] obtain r where out: "out = Inr r"
    by (cases out) auto
  with validate_run_end[OF assms(1)]
  have all: "list_all2 (processed_by (decode deps)) (calls s) (queue s)"
    and ne: "calls s \<noteq> []" and fin: "finish (queue s) = Inr r" by auto
  from finish_processed[OF all ne] obtain g where
    g: "inv_response (last (calls s)) = Some g"
    and f: "finish (queue s) =
             (if result g
              then Inr (initial_response
                     \<lparr>validationResult := Some (aggregate_of_log (decode deps) (calls s))\<rparr>)
              else Inr g)" by blast
  have qne: "queue s \<noteq> []" using ne list_all2_lengthD[OF all] by auto
  have "processed_by (decode deps) (last (calls s)) (last (queue s))"
    using all ne by (rule list_all2_last)
  then have "validationResponse (last (queue s)) = Some g"
    using g by (simp add: processed_by_def)
  moreover have "last (queue s) \<in> set (queue s)" using qne by simp
  ultimately have "result g"
    using assms(2) by (auto simp: list_all_iff split: option.splits)
  then show ?thesis using f fin out processed_tokens[OF all]
    by (simp add: initial_response_def)
qed

text \<open>
  The siop token of the concrete setting, with its credential and its id token: all three
  validate, and the subject DID is the one of the siop response.
\<close>

theorem validate_aggregates_on_success_witness:
  "map (\<lambda>item. (tokenToValidate item, map_option result (validationResponse item)))
     (queue (fst (validate_run demo_validator demo_deps 3 ''siop1''))) =
     [(''siop1'', Some True), (''vc1'', Some True), (''id1'', Some True)] \<and>
   snd (validate_run demo_validator demo_deps 3 ''siop1'') =
     Some (Inr \<lparr>result = True, status = 200, detailedError = None, did = None,
                payloadObject = None, didSignature = None,
                validationResult = Some
                  \<lparr>subjectDid = JStr ''did:alice'',
                   verifiableCredentials =
                     [Some [(''vc'', JObj []), (''aud'', JStr ''did:alice'')]],
                   idTokens = [Some [(''sub'', JStr ''id1'')]],
                   selfIssuedClaims = None\<rparr>\<rparr>)"
proof -
  let ?run = "validate_run demo_validator demo_deps 3 ''siop1''"
  have h1: "?run = (fst ?run, Some (the (snd ?run)))"
    by (simp add: prod_eq_iff demo_run_outcome)
  have q: "map (\<lambda>item. (tokenToValidate item, map_option result (validationResponse item)))
             (queue (fst ?run)) =
           [(''siop1'', Some True), (''vc1'', Some True), (''id1'', Some True)]"
    by (rule demo_run_queue)
  have h2: "list_all (\<lambda>item. case validationResponse item of None \<Rightarrow> False
                                  | Some r \<Rightarrow> result r) (queue (fst ?run))"
    by (rule demo_run_all_succeed)
  from validate_aggregates_on_success [OF h1 h2]
  have "the (snd ?run) =
          Inr \<lparr>result = True, status = 200, detailedError = None, did = None,
               payloadObject = None, didSignature = None,
               validationResult = Some (aggregate_of_log (decode demo_deps) (calls (fst ?run)))\<rparr>"
    by simp
  then show ?thesis using q demo_run_outcome by simp
qed

text \<open>
  The claim as it was stated, with the subject DID taken from a siop item's response DID
  when one exists and otherwise from a credential's \<open>aud\<close>, fails on queues with more
  than one item of a type. In the first call all four items validate and the response for
  \<open>siop2\<close> carries the DID \<open>did:bob\<close>, yet the subject DID is the credential's audience
  \<open>did:carol\<close>, the first siop response having no DID. In the second call all three
  items validate and the credential \<open>vc1\<close> has the audience \<open>did:carol\<close>, yet the
  subject DID is the empty string, the first credential having no \<open>aud\<close>.
\<close>

theorem aggregation_takes_first_items_counterexample:
  "map (\<lambda>item. (tokenToValidate item, map_option result (validationResponse item),
                 Option.bind (validationResponse item) did))
     (queue (fst (validate_run late_did_validator late_did_deps 4 ''vp1''))) =
     [(''vp1'', Some True, None), (''siop1'', Some True, None),
      (''siop2'', Some True, Some ''did:bob''), (''vc1'', Some True, None)] \<and>
   validate late_did_validator late_did_deps 4 ''vp1'' =
     Some (Inr \<lparr>result = True, status = 200, detailedError = None, did = None,
                payloadObject = None, didSignature = None,
                validationResult = Some
                  \<lparr>subjectDid = JStr ''did:carol'',
                   verifiableCredentials =
                     [Some [(''vc'', JObj []), (''aud'', JStr ''did:carol'')]],
                   idTokens = [],
                   selfIssuedClaims = None\<rparr>\<rparr>) \<and>
   map (\<lambda>item. (tokenToValidate item, map_option result (validationResponse item),
                 Option.bind (validatedToken item) (\<lambda>t. map_of (decodedToken t) ''aud'')))
     (queue (fst (validate_run late_did_validator late_did_deps 3 ''vp2''))) =
     [(''vp2'', Some True, None), (''vc0'', Some True, None),
      (''vc1'', Some True, Some (JStr ''did:carol''))] \<and>
   validate late_did_validator late_did_deps 3 ''vp2'' =
     Some (Inr \<lparr>result = True, status = 200, detailedError = None, did = None,
                payloadObject = None, didSignature = None,
                validationResult = Some
                  \<lparr>subjectDid = JStr [],
                   verifiableCredentials =
                     [Some [(''vc'', JObj [])],
                      Some [(''vc'', JObj []), (''aud'', JStr ''did:carol'')]],
                   idTokens = [],
                   selfIssuedClaims = None\<rparr>\<rparr>)"
  by code_simp

section \<open>A type without a validator\<close>

text \<open>
  Claim C7, as amended. For an item that the classifier gives a type for which the
  dispatch table has no validator, \<open>Validator.validate\<close> does not return a response: the
  promise is rejected with the message \<open><type> does not has a TokenValidator\<close>, which is
  another channel than the one failures of validation come through. The iteration leaves
  the loop state as it was: no validator is invoked for the item and nothing is recorded
  on it.
\<close>

theorem unregistered_type_rejects:
  assumes "getTokenType (options s) (decode deps) (tokenToValidate (queue s ! i)) =
             Inr (response, Some ct)"
    and "tokenValidators this (type_name (type ct)) = None"
  shows "validate_loop this deps (Suc n) s i =
           (s, Some (Inl (Rejected (type_name (type ct) @ '' does not has a TokenValidator''))))"
  using assms by (simp add: loop_body_def type_key_def)

theorem unregistered_type_rejects_witness:
  "getTokenType demo_options (decode demo_deps) ''id1'' =
     Inr (initial_response\<lparr>payloadObject := Some (demo_payload ''id1''),
                           did := Some ''did:alice''\<rparr>,
          Some (ClaimToken_new (decode demo_deps) idToken ''id1'')) \<and>
   tokenValidators empty_validator ''idToken'' = None \<and>
   snd (validate_loop empty_validator demo_deps 1
          \<lparr>options = demo_options, siopDid = None, queue = addToken [] ''id1'', calls = []\<rparr> 0) =
     Some (Inl (Rejected ''idToken does not has a TokenValidator''))"
proof -
  let ?s = "\<lparr>options = demo_options, siopDid = None, queue = addToken [] ''id1'', calls = []\<rparr>"
  let ?r = "initial_response\<lparr>payloadObject := Some (demo_payload ''id1''),
                              did := Some ''did:alice''\<rparr>"
  let ?ct = "ClaimToken_new (decode demo_deps) idToken ''id1''"
  have c: "getTokenType demo_options (decode demo_deps) ''id1'' = Inr (?r, Some ?ct)"
    by (simp add: getTokenType_def demo_options_def demo_payload_def initial_response_def
          truthy_opt_def Let_def)
  have h1: "getTokenType (options ?s) (decode demo_deps) (tokenToValidate (queue ?s ! 0)) =
              Inr (?r, Some ?ct)"
    using c by (simp add: addToken_def new_item_def)
  have h2: "tokenValidators empty_validator (type_name (type ?ct)) = None"
    by (simp add: empty_validator_def)
  from unregistered_type_rejects [OF h1 h2, of 0] c h2
  show ?thesis by (simp add: ClaimToken_new_def)
qed

text \<open>
  The claim as it was stated fails on an id token submitted to a validator with an empty
  dispatch table: the outcome is a rejection, not a response.
\<close>

theorem unregistered_type_counterexample:
  "validate empty_validator demo_deps 1 ''id1'' =
     Some (Inl (Rejected ''idToken does not has a TokenValidator''))"
  by code_simp

section \<open>The bound on the iterations\<close>

text \<open>
  The number of iterations the model allows has no influence on what a call returns: two
  runs on the same token that both return, return the same outcome.
\<close>

lemma validate_outcome_independent_of_bound:
  assumes "validate this deps n token = Some r1"
    and "validate this deps m token = Some r2"
  shows "r1 = r2"
proof -
  let ?s0 = "\<lparr>options = ValidationOptions_new deps (setValidatorOptions this) siop,
              siopDid = None, queue = addToken [] token, calls = []\<rparr>"
  obtain s1 where 1: "validate_loop this deps n ?s0 0 = (s1, Some r1)"
    using assms(1) by (cases "validate_loop this deps n ?s0 0")
      (simp add: validate_def validate_run_loop)
  obtain s2 where 2: "validate_loop this deps m ?s0 0 = (s2, Some r2)"
    using assms(2) by (cases "validate_loop this deps m ?s0 0")
      (simp add: validate_def validate_run_loop)
  from validate_loop_more_fuel[OF 1, of m] validate_loop_more_fuel[OF 2, of n]
  show ?thesis by (simp add: add.commute)
qed

end
